theory Spec2Isabelle
  imports Complex_Main "HOL-Library.AList"
begin

section \<open>Tabular presets: data model\<close>

text \<open>
  The embedding follows \<^verbatim>\<open>lightautoml/automl/presets/tabular_presets.py\<close>.
  Python exceptions are values of \<open>error\<close>; a function that may raise returns
  \<open>error + 'a\<close>. Time scores are Python numbers (ints and floats); they are modelled
  as exact reals.
\<close>

datatype error = KeyError | ValueError

text \<open>An option of the configuration that may carry the sentinel \<^verbatim>\<open>'auto'\<close>.\<close>

datatype 'a auto_or = Auto | Val 'a

type_synonym params = "(string \<times> string) list"

record general_params_t =
  use_algos :: "string list list auto_or"
  nested_cv :: bool
  skip_conn :: bool

record nested_cv_params_t =
  cv :: int
  n_folds :: "int option"

record tuning_params_t =
  max_tuning_iter :: "int auto_or"
  max_tuning_time :: int
  tun_fit_on_holdout :: bool

record selection_params_t =
  mode :: int
  importance_type :: string
  cutoff :: real
  sel_fit_on_holdout :: bool
  feature_group_size :: int
  max_features_cnt_in_result :: "int option"
  select_algos :: "string list"

record lgb_default_params_t =
  num_threads :: int
  feature_fraction :: real

record lgb_params_t =
  lgb_default_params :: lgb_default_params_t
  lgb_other :: params

record cb_default_params_t =
  task_type :: string
  devices :: "string option"
  thread_count :: int

record cb_params_t =
  cb_default_params :: cb_default_params_t
  cb_other :: params

record reader_params_t =
  n_jobs :: int
  reader_other :: params

text \<open>A column role of the fitted reader: its name and its dtype.\<close>

record role =
  role_name :: string
  role_dtype :: string

text \<open>
  The fitted reader (\<^verbatim>\<open>self.reader\<close>): the attribute does not exist before the
  first fit, which is \<open>None\<close> in the object below.
\<close>

record reader_t =
  used_features :: "string list"
  reader_roles :: "(string \<times> role) list"

record read_csv_params_t =
  usecols :: "string list option"
  dtype :: "(string \<times> string) list"
  csv_other :: params

text \<open>The attributes of a \<^verbatim>\<open>TabularAutoML\<close> object that the preset reads or writes.\<close>

record TabularAutoML =
  task_name :: string
  task_losses :: "string list"
  cpu_limit :: int
  gpu_ids :: "string option"
  general_params :: general_params_t
  reader_params :: reader_params_t
  nested_cv_params :: nested_cv_params_t
  tuning_params :: tuning_params_t
  selection_params :: selection_params_t
  lgb_params :: lgb_params_t
  cb_params :: cb_params_t
  linear_l2_params :: params
  gbm_pipeline_params :: params
  linear_pipeline_params :: params
  read_csv_params :: read_csv_params_t
  reader :: "reader_t option"

section \<open>Strings\<close>

text \<open>\<^verbatim>\<open>p in s\<close> on Python strings: \<open>p\<close> occurs in \<open>s\<close> as a contiguous block.\<close>

fun str_in :: "string \<Rightarrow> string \<Rightarrow> bool" where
  "str_in p [] = (p = [])"
| "str_in p (c # cs) = (take (length p) (c # cs) = p \<or> str_in p cs)"

text \<open>\<^verbatim>\<open>key.split('_')[0]\<close>: the part of the key before the first underscore.\<close>

definition split_head :: "string \<Rightarrow> string" where
  "split_head key = takeWhile (\<lambda>c. c \<noteq> CHR ''_'') key"

text \<open>\<^verbatim>\<open>str(n)\<close> for a non-negative integer.\<close>

definition digit_char :: "nat \<Rightarrow> char" where
  "digit_char d = char_of (48 + d)"

fun str_nat :: "nat \<Rightarrow> string" where
  "str_nat n = (if n < 10 then [digit_char n] else str_nat (n div 10) @ [digit_char (n mod 10)])"

text \<open>\<^verbatim>\<open>sep.join(xs)\<close>.\<close>

fun join :: "string \<Rightarrow> string list \<Rightarrow> string" where
  "join sep [] = []"
| "join sep [x] = x"
| "join sep (x # y # ys) = x @ sep @ join sep (y # ys)"

text \<open>\<^verbatim>\<open>s.replace(',', ':')\<close>.\<close>

definition replace_comma :: "string \<Rightarrow> string" where
  "replace_comma s = map (\<lambda>c. if c = CHR '','' then CHR '':'' else c) s"

section \<open>Relative cost table and parameter inference\<close>

text \<open>The class attribute \<^verbatim>\<open>_time_scores\<close>; a missing key raises \<^verbatim>\<open>KeyError\<close>.\<close>

definition time_scores :: "string \<Rightarrow> real option" where
  "time_scores model_type =
     (if model_type = ''lgb'' then Some 1
      else if model_type = ''lgb_tuned'' then Some 3
      else if model_type = ''linear_l2'' then Some 0.7
      else if model_type = ''cb'' then Some 2
      else if model_type = ''cb_tuned'' then Some 6
      else None)"

text \<open>
  \<^verbatim>\<open>infer_auto_params(self, train_data, multilevel_avail)\<close>. \<open>len\<close> is the local
  \<^verbatim>\<open>length = train_data.shape[0]\<close>; \<open>gpu_cnt\<close> is \<^verbatim>\<open>torch.cuda.device_count()\<close> and
  \<open>os_cpu_count\<close> is \<^verbatim>\<open>os.cpu_count()\<close>, both read from the environment. The
  object is mutated in place; the model returns the updated object, one function for each
  of the five steps of the method, composed in the order of the source. The call
  \<^verbatim>\<open>torch.set_num_threads(cpu_cnt)\<close> acts on the process, not on the object.
\<close>

definition infer_max_tuning_iter :: "TabularAutoML \<Rightarrow> int \<Rightarrow> TabularAutoML" where
  "infer_max_tuning_iter self len =
     (if max_tuning_iter (tuning_params self) = Auto then
        self\<lparr>tuning_params := (tuning_params self)\<lparr>max_tuning_iter :=
          Val (if len < 10000 then 100
               else if len < 30000 then 50
               else if len < 100000 then 10
               else 5)\<rparr>\<rparr>
      else self)"

definition infer_use_algos :: "TabularAutoML \<Rightarrow> bool \<Rightarrow> TabularAutoML" where
  "infer_use_algos self multilevel_avail =
     (if use_algos (general_params self) = Auto then
        self\<lparr>general_params := (general_params self)\<lparr>use_algos :=
          Val ([[''lgb'', ''lgb_tuned'', ''linear_l2'', ''cb'', ''cb_tuned'']] @
               (if task_name self = ''multiclass'' \<and> multilevel_avail
                then [[''linear_l2'', ''lgb'']] else []))\<rparr>\<rparr>
      else self)"

definition infer_nested_cv :: "TabularAutoML \<Rightarrow> TabularAutoML" where
  "infer_nested_cv self =
     (if \<not> nested_cv (general_params self) then
        self\<lparr>nested_cv_params := (nested_cv_params self)\<lparr>cv := 1\<rparr>\<rparr>
      else self)"

definition infer_gpu :: "TabularAutoML \<Rightarrow> nat \<Rightarrow> TabularAutoML" where
  "infer_gpu self gpu_cnt =
     (case gpu_ids self of
        None \<Rightarrow> self
      | Some ids \<Rightarrow>
          if gpu_cnt > 0 \<and> ids \<noteq> [] then
            let ids' = (if ids = ''all'' then join '','' (map str_nat [0..<gpu_cnt]) else ids)
            in self\<lparr>cb_params := (cb_params self)\<lparr>cb_default_params :=
                 (cb_default_params (cb_params self))
                   \<lparr>task_type := ''GPU'', devices := Some (replace_comma ids')\<rparr>\<rparr>\<rparr>
          else self)"

definition infer_n_jobs :: "TabularAutoML \<Rightarrow> int \<Rightarrow> TabularAutoML" where
  "infer_n_jobs self os_cpu_count =
     (let cpu_cnt = min os_cpu_count (cpu_limit self) in
      self\<lparr>cb_params := (cb_params self)\<lparr>cb_default_params :=
             (cb_default_params (cb_params self))
               \<lparr>thread_count := min (thread_count (cb_default_params (cb_params self))) cpu_cnt\<rparr>\<rparr>,
           lgb_params := (lgb_params self)\<lparr>lgb_default_params :=
             (lgb_default_params (lgb_params self))
               \<lparr>num_threads := min (num_threads (lgb_default_params (lgb_params self))) cpu_cnt\<rparr>\<rparr>,
           reader_params := (reader_params self)\<lparr>n_jobs := min (n_jobs (reader_params self)) cpu_cnt\<rparr>\<rparr>)"

definition infer_auto_params :: "TabularAutoML \<Rightarrow> int \<Rightarrow> bool \<Rightarrow> nat \<Rightarrow> int \<Rightarrow> TabularAutoML" where
  "infer_auto_params self len multilevel_avail gpu_cnt os_cpu_count =
     infer_n_jobs
       (infer_gpu
         (infer_nested_cv
           (infer_use_algos
             (infer_max_tuning_iter self len) multilevel_avail)) gpu_cnt) os_cpu_count"

section \<open>Time budget estimate\<close>

text \<open>
  \<^verbatim>\<open>get_time_score(self, n_level, model_type, nested=None)\<close>. The lookup in the
  relative cost table comes first and may raise; the catboost entries are halved when
  catboost runs on GPU.
\<close>

definition get_time_score :: "TabularAutoML \<Rightarrow> int \<Rightarrow> string \<Rightarrow> bool option \<Rightarrow> error + real" where
  "get_time_score self n_level model_type nested_arg =
     (let nested = (case nested_arg of None \<Rightarrow> nested_cv (general_params self) | Some b \<Rightarrow> b) in
      case time_scores model_type of
        None \<Rightarrow> Inl KeyError
      | Some score \<Rightarrow>
          let mult = (if nested then
                        (case n_folds (nested_cv_params self) of
                           Some nf \<Rightarrow> real_of_int nf
                         | None \<Rightarrow> real_of_int (cv (nested_cv_params self)))
                      else 1);
              mult = (if n_level > 1
                      then mult * (if skip_conn (general_params self) then 0.8 else 0.1)
                      else mult);
              score = score * mult;
              score = (if model_type \<in> set [''cb'', ''cb_tuned'']
                          \<and> task_type (cb_default_params (cb_params self)) = ''GPU''
                       then score * 0.5 else score)
          in Inr score)"

section \<open>Pipeline building blocks\<close>

text \<open>
  The collaborators are constructed, not run: a constructed object is the constructor's
  name with the arguments it was given. \<^verbatim>\<open>self.timer.get_task_timer(key, score)\<close>
  yields a task timer for that key and score.
\<close>

record TaskTimer =
  timer_key :: string
  timer_score :: real

definition get_task_timer :: "string \<Rightarrow> real \<Rightarrow> TaskTimer" where
  "get_task_timer key score = \<lparr>timer_key = key, timer_score = score\<rparr>"

datatype features_pipeline_t =
    LGBSimpleFeatures
  | LGBAdvancedPipeline bool params
  | LinearFeatures bool params

datatype importance_t = NpPermutationImportanceEstimator | ModelBasedImportanceEstimator

datatype ml_algo =
    BoostLGBM TaskTimer lgb_params_t
  | BoostCB TaskTimer cb_params_t
  | LinearLBFGS TaskTimer params

record OptunaTuner =
  n_trials :: "int auto_or"
  timeout :: int
  fit_on_holdout :: bool

text \<open>A trainable unit: a model, or the pair of a model and its tuner.\<close>

datatype trainable = Model ml_algo | ModelTuner ml_algo OptunaTuner

datatype selector =
    ImportanceCutoffSelector features_pipeline_t ml_algo importance_t real bool
  | NpIterativeFeatureSelector features_pipeline_t ml_algo importance_t int "int option"
  | ComposedSelector "selector list"

text \<open>\<^verbatim>\<open>force_calc\<close> is one flag for every unit, or one flag per unit.\<close>

datatype force_calc_t = ForceAll bool | ForceEach "bool list"

record NestedTabularMLPipeline =
  ml_algos :: "trainable list"
  force_calc :: force_calc_t
  pre_selection :: "selector option"
  features_pipeline :: features_pipeline_t
  nested_params :: nested_cv_params_t

section \<open>Selection pipeline builder\<close>

text \<open>
  \<^verbatim>\<open>get_selector(self, n_level=1)\<close>. The only tests on \<open>mode\<close> are
  \<^verbatim>\<open>mode > 0\<close> and, inside it, \<^verbatim>\<open>mode == 2\<close>.
\<close>

definition get_selector :: "TabularAutoML \<Rightarrow> int \<Rightarrow> error + selector option" where
  "get_selector self n_level =
     (let selection_params = selection_params self;
          lgb_params = (lgb_params self)\<lparr>lgb_default_params :=
             (lgb_default_params (lgb_params self))\<lparr>feature_fraction := 1\<rparr>\<rparr>;
          mode = mode selection_params
      in
      if mode > 0 then
        (case get_time_score self n_level ''lgb'' (Some False) of
           Inl e \<Rightarrow> Inl e
         | Inr time_score \<Rightarrow>
             let sel_timer_0 = get_task_timer ''lgb'' time_score;
                 selection_feats = LGBSimpleFeatures;
                 selection_gbm = BoostLGBM sel_timer_0 lgb_params;
                 importance = (if importance_type selection_params = ''permutation''
                               then NpPermutationImportanceEstimator
                               else ModelBasedImportanceEstimator);
                 pre_selector = ImportanceCutoffSelector selection_feats selection_gbm importance
                                  (cutoff selection_params) (sel_fit_on_holdout selection_params)
             in
             if mode = 2 then
               (case get_time_score self n_level ''lgb'' (Some False) of
                  Inl e \<Rightarrow> Inl e
                | Inr time_score \<Rightarrow>
                    let sel_timer_1 = get_task_timer ''lgb'' time_score;
                        selection_feats = LGBSimpleFeatures;
                        selection_gbm = BoostLGBM sel_timer_1 lgb_params;
                        importance = NpPermutationImportanceEstimator;
                        extra_selector = NpIterativeFeatureSelector selection_feats selection_gbm
                                           importance (feature_group_size selection_params)
                                           (max_features_cnt_in_result selection_params)
                    in Inr (Some (ComposedSelector [pre_selector, extra_selector])))
             else Inr (Some pre_selector))
      else Inr None)"

section \<open>Level pipeline builders\<close>

text \<open>\<^verbatim>\<open>get_linear(self, n_level=1, pre_selector=None)\<close>.\<close>

definition get_linear :: "TabularAutoML \<Rightarrow> int \<Rightarrow> selector option \<Rightarrow> error + NestedTabularMLPipeline" where
  "get_linear self n_level pre_selector =
     (case get_time_score self n_level ''linear_l2'' None of
        Inl e \<Rightarrow> Inl e
      | Inr time_score \<Rightarrow>
          let linear_l2_timer = get_task_timer ''reg_l2'' time_score;
              linear_l2_model = LinearLBFGS linear_l2_timer (linear_l2_params self);
              linear_l2_feats = LinearFeatures True (linear_pipeline_params self)
          in Inr \<lparr>ml_algos = [Model linear_l2_model], force_calc = ForceAll True,
                   pre_selection = pre_selector, features_pipeline = linear_l2_feats,
                   nested_params = nested_cv_params self\<rparr>)"

text \<open>
  The loop of \<^verbatim>\<open>get_gbms\<close> over \<^verbatim>\<open>zip(keys, [True, False, False, False])\<close>, with the
  two lists it appends to (\<^verbatim>\<open>ml_algos\<close> and \<^verbatim>\<open>force_calc\<close>). The time score of the key is looked up before the base algorithm
  is tested.
\<close>

fun gbms_loop :: "TabularAutoML \<Rightarrow> int \<Rightarrow> (string \<times> bool) list \<Rightarrow> trainable list \<Rightarrow> bool list
    \<Rightarrow> error + (trainable list \<times> bool list)" where
  "gbms_loop self n_level [] algos forces = Inr (algos, forces)"
| "gbms_loop self n_level ((key, force) # rest) algos forces =
     (let tuned = str_in ''_tuned'' key;
          algo_key = split_head key
      in
      case get_time_score self n_level key None of
        Inl e \<Rightarrow> Inl e
      | Inr time_score \<Rightarrow>
          let gbm_timer = get_task_timer algo_key time_score in
          if algo_key = ''lgb'' \<or> algo_key = ''cb'' then
            let gbm_model = (if algo_key = ''lgb'' then BoostLGBM gbm_timer (lgb_params self)
                             else BoostCB gbm_timer (cb_params self));
                gbm_unit = (if tuned then
                              ModelTuner gbm_model
                                \<lparr>n_trials = max_tuning_iter (tuning_params self),
                                 timeout = max_tuning_time (tuning_params self),
                                 fit_on_holdout = tun_fit_on_holdout (tuning_params self)\<rparr>
                            else Model gbm_model)
            in gbms_loop self n_level rest (algos @ [gbm_unit]) (forces @ [force])
          else Inl ValueError)"

text \<open>\<^verbatim>\<open>get_gbms(self, keys, n_level=1, pre_selector=None)\<close>.\<close>

definition get_gbms :: "TabularAutoML \<Rightarrow> string list \<Rightarrow> int \<Rightarrow> selector option
    \<Rightarrow> error + NestedTabularMLPipeline" where
  "get_gbms self keys n_level pre_selector =
     (let gbm_feats = LGBAdvancedPipeline False (gbm_pipeline_params self) in
      case gbms_loop self n_level (zip keys [True, False, False, False]) [] [] of
        Inl e \<Rightarrow> Inl e
      | Inr (algos, forces) \<Rightarrow>
          Inr \<lparr>ml_algos = algos, force_calc = ForceEach forces,
               pre_selection = pre_selector, features_pipeline = gbm_feats,
               nested_params = nested_cv_params self\<rparr>)"

section \<open>Reading data, fitting and predicting\<close>

text \<open>\<^verbatim>\<open>_get_read_csv_params(self)\<close>: an unfitted reader means no column pruning.\<close>

definition get_read_csv_params :: "TabularAutoML \<Rightarrow> read_csv_params_t" where
  "get_read_csv_params self =
     (let (cols_to_read, numeric_dtypes) =
            (case reader self of
               None \<Rightarrow> ([], [])
             | Some r \<Rightarrow> (used_features r,
                          map (\<lambda>(x, ro). (x, role_dtype ro))
                            (filter (\<lambda>(x, ro). role_name ro = ''Numeric'') (reader_roles r))));
          cols_to_read = (if length cols_to_read = 0 then None else Some cols_to_read)
      in (read_csv_params self)\<lparr>usecols := cols_to_read, dtype := numeric_dtypes\<rparr>)"

text \<open>\<^verbatim>\<open>{**roles, **upd_roles}\<close> on dictionaries kept as association lists.\<close>

definition dict_merge :: "('k \<times> 'v) list \<Rightarrow> ('k \<times> 'v) list \<Rightarrow> ('k \<times> 'v) list" where
  "dict_merge d upd = foldl (\<lambda>acc (k, v). AList.update k v acc) d upd"

text \<open>
  \<^verbatim>\<open>fit_predict\<close>. \<open>read_data\<close> is the reader of
  \<^verbatim>\<open>tabular_batch_generator\<close> and \<open>super_fit_predict\<close> the
  \<^verbatim>\<open>fit_predict\<close> of the base preset; both are outside this module and are taken as
  parameters. The second \<^verbatim>\<open>read_data\<close> call binds the local \<^verbatim>\<open>data\<close>, which
  is not read again.
\<close>

definition fit_predict ::
  "('src \<Rightarrow> string list option \<Rightarrow> int \<Rightarrow> read_csv_params_t \<Rightarrow> 'ds \<times> (string \<times> 'r) list option) \<Rightarrow>
   ('ds \<Rightarrow> (string \<times> 'r) list \<Rightarrow> 'cv option \<Rightarrow> 'src option \<Rightarrow> 'res) \<Rightarrow>
   TabularAutoML \<Rightarrow> 'src \<Rightarrow> (string \<times> 'r) list option \<Rightarrow> string list option \<Rightarrow> 'cv option \<Rightarrow>
   'src option \<Rightarrow> string list option \<Rightarrow> 'res" where
  "fit_predict read_data super_fit_predict self train_data roles train_features cv_iter
       valid_data valid_features =
     (let roles = (case roles of None \<Rightarrow> [] | Some r \<Rightarrow> r);
          csv_params = get_read_csv_params self;
          (train, upd_roles) = read_data train_data train_features (cpu_limit self) csv_params;
          roles = (case upd_roles of
                     None \<Rightarrow> roles
                   | Some u \<Rightarrow> if u \<noteq> [] then dict_merge roles u else roles);
          data = (case valid_data of
                    None \<Rightarrow> None
                  | Some v \<Rightarrow> Some (fst (read_data v valid_features (cpu_limit self)
                                            (read_csv_params self))))
      in super_fit_predict train roles cv_iter valid_data)"

text \<open>A dataset of predictions: the array (a list of rows), the features and the roles.\<close>

record ('p, 'r) NumpyDataset =
  data :: "'p list"
  features :: "string list"
  roles :: "(string \<times> 'r) list"

text \<open>
  \<^verbatim>\<open>predict\<close>. \<open>read_data\<close>, \<open>read_batch\<close> and \<open>super_predict\<close> (the
  \<^verbatim>\<open>predict\<close> of the base preset) are outside this module and are taken as
  parameters. The branch for one whole dataset is \<open>predict_whole\<close>; the batched branch
  calls \<^verbatim>\<open>self.predict(df, features_names)\<close> on each batch, which is that branch
  again. \<^verbatim>\<open>np.concatenate\<close> of an empty list raises \<^verbatim>\<open>ValueError\<close>. The
  argument \<open>jobs\<close> is \<^verbatim>\<open>n_jobs\<close>; with a value other than 1 the batches go to a
  worker pool, whose result list is in submission order.
\<close>

definition predict_whole ::
  "('src \<Rightarrow> string list option \<Rightarrow> int \<Rightarrow> read_csv_params_t \<Rightarrow> 'ds \<times> 'x) \<Rightarrow>
   ('ds \<Rightarrow> string list option \<Rightarrow> ('p, 'r) NumpyDataset) \<Rightarrow>
   TabularAutoML \<Rightarrow> 'src \<Rightarrow> string list option \<Rightarrow> ('p, 'r) NumpyDataset" where
  "predict_whole read_data super_predict self src features_names =
     (let csv_params = get_read_csv_params self;
          (ds, _) = read_data src features_names (cpu_limit self) csv_params
      in super_predict ds features_names)"

definition predict ::
  "('src \<Rightarrow> string list option \<Rightarrow> int \<Rightarrow> read_csv_params_t \<Rightarrow> 'ds \<times> 'x) \<Rightarrow>
   ('src \<Rightarrow> string list option \<Rightarrow> int \<Rightarrow> int option \<Rightarrow> read_csv_params_t \<Rightarrow> 'src list) \<Rightarrow>
   ('ds \<Rightarrow> string list option \<Rightarrow> ('p, 'r) NumpyDataset) \<Rightarrow>
   TabularAutoML \<Rightarrow> 'src \<Rightarrow> string list option \<Rightarrow> int option \<Rightarrow> int \<Rightarrow>
   error + ('p, 'r) NumpyDataset" where
  "predict read_data read_batch super_predict self src features_names batch_size jobs =
     (let csv_params = get_read_csv_params self in
      if batch_size = None \<and> jobs = 1 then
        Inr (predict_whole read_data super_predict self src features_names)
      else
        let data_generator = read_batch src features_names jobs batch_size csv_params;
            res = map (\<lambda>df. predict_whole read_data super_predict self df features_names)
                    data_generator
        in case res of
             [] \<Rightarrow> Inl ValueError
           | r0 # _ \<Rightarrow> Inr \<lparr>data = concat (map data res), features = features r0,
                              roles = roles r0\<rparr>)"

section \<open>The multi-configuration runner\<close>

datatype blender = MeanBlender | WeightedBlender

text \<open>\<^verbatim>\<open>os.path.join(a, b)\<close> on POSIX paths.\<close>

definition path_join :: "string \<Rightarrow> string \<Rightarrow> string" where
  "path_join a b =
     (if b \<noteq> [] \<and> hd b = CHR ''/'' then b
      else if a = [] \<or> last a = CHR ''/'' then a @ b
      else a @ ''/'' @ b)"

text \<open>
  The state that \<^verbatim>\<open>TimeUtilization.__init__\<close> sets up from its arguments. That
  initialiser is outside this module; the record holds the arguments the preset passes.
\<close>

record TimeUtilization =
  tu_task :: string
  tu_timeout :: int
  tu_memory_limit :: int
  tu_cpu_limit :: int
  tu_gpu_ids :: "string option"
  tu_verbose :: int
  tu_timing_params :: "params option"
  configs_list :: "string list"
  inner_blend :: blender
  outer_blend :: blender
  drop_last :: bool
  max_runs_per_config :: int
  random_state :: int
  kwargs :: params

text \<open>
  \<^verbatim>\<open>TabularUtilizedAutoML.__init__\<close>. The two blenders and the call
  \<^verbatim>\<open>super().__init__(...)\<close> stand inside the body of
  \<^verbatim>\<open>if configs_list is None:\<close>. The result is the initialised runner, or \<open>None\<close>
  when the method returns without having called the base initialiser. \<open>base_dir\<close> is
  the module's \<^verbatim>\<open>_base_dir\<close>.
\<close>

definition default_configs :: "string list" where
  "default_configs =
     [''conf_0_sel_type_0.yml'', ''conf_1_sel_type_1.yml'', ''conf_2_select_mode_1_no_typ.yml'',
      ''conf_3_sel_type_1_no_inter_lgbm.yml'', ''conf_4_sel_type_0_no_int.yml'',
      ''conf_5_sel_type_1_tuning_full.yml'', ''conf_6_sel_type_1_tuning_full_no_int_lgbm.yml'']"

definition TabularUtilizedAutoML_init ::
  "string \<Rightarrow> string \<Rightarrow> int \<Rightarrow> int \<Rightarrow> int \<Rightarrow> string option \<Rightarrow> int \<Rightarrow> params option \<Rightarrow>
   string list option \<Rightarrow> bool \<Rightarrow> int \<Rightarrow> int \<Rightarrow> params \<Rightarrow> TimeUtilization option" where
  "TabularUtilizedAutoML_init base_dir task timeout_s memory_limit cpu_lim gpus verbose
       timing_params configs drop_last_flag max_runs rnd_state kw =
     (case configs of
        None \<Rightarrow>
          let configs_list = map (\<lambda>x. path_join (path_join base_dir ''tabular_configs'') x)
                               default_configs;
              inner_blend = MeanBlender;
              outer_blend = WeightedBlender
          in Some \<lparr>tu_task = task, tu_timeout = timeout_s, tu_memory_limit = memory_limit,
                   tu_cpu_limit = cpu_lim, tu_gpu_ids = gpus, tu_verbose = verbose,
                   tu_timing_params = timing_params, configs_list = configs_list,
                   inner_blend = inner_blend, outer_blend = outer_blend,
                   drop_last = drop_last_flag, max_runs_per_config = max_runs,
                   random_state = rnd_state, kwargs = kw\<rparr>
      | Some _ \<Rightarrow> None)"

section \<open>A concrete preset object\<close>

text \<open>
  An object in the shape of the default configuration: nested cross-validation is off while
  a fold count and a fold cap are configured, every \<^verbatim>\<open>'auto'\<close> value is still
  unresolved and the reader is not fitted.
\<close>

definition example_automl :: TabularAutoML where
  "example_automl =
     \<lparr>task_name = ''binary'', task_losses = [''lgb'', ''cb'', ''linear_l2''],
      cpu_limit = 4, gpu_ids = Some ''all'',
      general_params = \<lparr>use_algos = Auto, nested_cv = False, skip_conn = True\<rparr>,
      reader_params = \<lparr>n_jobs = 8, reader_other = []\<rparr>,
      nested_cv_params = \<lparr>cv = 5, n_folds = Some 3\<rparr>,
      tuning_params = \<lparr>max_tuning_iter = Auto, max_tuning_time = 300, tun_fit_on_holdout = True\<rparr>,
      selection_params = \<lparr>mode = 1, importance_type = ''permutation'', cutoff = 0,
         sel_fit_on_holdout = True, feature_group_size = 1, max_features_cnt_in_result = None,
         select_algos = [''gbm'', ''linear_l2'']\<rparr>,
      lgb_params = \<lparr>lgb_default_params = \<lparr>num_threads = 8, feature_fraction = 0.9\<rparr>,
         lgb_other = []\<rparr>,
      cb_params = \<lparr>cb_default_params = \<lparr>task_type = ''CPU'', devices = None, thread_count = 8\<rparr>,
         cb_other = []\<rparr>,
      linear_l2_params = [], gbm_pipeline_params = [], linear_pipeline_params = [],
      read_csv_params = \<lparr>usecols = None, dtype = [], csv_other = []\<rparr>,
      reader = None\<rparr>"

text \<open>The same object with another selection mode, and with another skip-connection flag.\<close>

definition with_mode :: "TabularAutoML \<Rightarrow> int \<Rightarrow> TabularAutoML" where
  "with_mode self m = self\<lparr>selection_params := (selection_params self)\<lparr>mode := m\<rparr>\<rparr>"

definition with_skip_conn :: "TabularAutoML \<Rightarrow> bool \<Rightarrow> TabularAutoML" where
  "with_skip_conn self b = self\<lparr>general_params := (general_params self)\<lparr>skip_conn := b\<rparr>\<rparr>"

text \<open>The fold count a nested estimate multiplies by: the fold cap if set, else the folds.\<close>

definition fold_count :: "TabularAutoML \<Rightarrow> int" where
  "fold_count self =
     (case n_folds (nested_cv_params self) of Some nf \<Rightarrow> nf | None \<Rightarrow> cv (nested_cv_params self))"

text \<open>The keys of the relative cost table, and the base algorithms of a boosting key.\<close>

definition cost_keys :: "string list" where
  "cost_keys = [''lgb'', ''lgb_tuned'', ''linear_l2'', ''cb'', ''cb_tuned'']"

definition gbm_base :: "string \<Rightarrow> bool" where
  "gbm_base key = (split_head key = ''lgb'' \<or> split_head key = ''cb'')"

text \<open>The same object with one nested fold and no fold cap.\<close>

definition single_fold :: "TabularAutoML \<Rightarrow> TabularAutoML" where
  "single_fold self = self\<lparr>nested_cv_params := \<lparr>cv = 1, n_folds = None\<rparr>\<rparr>"

text \<open>The timer key a trainable unit was built with.\<close>

fun algo_timer :: "ml_algo \<Rightarrow> TaskTimer" where
  "algo_timer (BoostLGBM t _) = t"
| "algo_timer (BoostCB t _) = t"
| "algo_timer (LinearLBFGS t _) = t"

fun unit_timer_key :: "trainable \<Rightarrow> string" where
  "unit_timer_key (Model a) = timer_key (algo_timer a)"
| "unit_timer_key (ModelTuner a _) = timer_key (algo_timer a)"

section \<open>Example collaborators for reading and predicting\<close>

text \<open>
  Modelled from the spec: \<^verbatim>\<open>read_data\<close> of the data-ingestion collaborator
  (\<^verbatim>\<open>tabular_batch_generator\<close>, not part of this module) returns the dataset of a
  source and the roles it inferred. Here a source is already the list of its rows and no
  role is inferred.
\<close>

definition read_rows :: "int list \<Rightarrow> string list option \<Rightarrow> int \<Rightarrow> read_csv_params_t
    \<Rightarrow> int list \<times> (string \<times> string) list option" where
  "read_rows src features_names cpu csv = (src, None)"

text \<open>Consecutive chunks of \<open>n\<close> rows, the last one possibly shorter.\<close>

function chunks :: "nat \<Rightarrow> 'a list \<Rightarrow> 'a list list" where
  "chunks n xs = (if n = 0 \<or> xs = [] then [] else take n xs # chunks n (drop n xs))"
  by pat_completeness auto
termination
  by (relation "measure (\<lambda>(n, xs). length xs)") auto

text \<open>
  Modelled from the spec: \<^verbatim>\<open>read_batch\<close> of the data-ingestion collaborator (not part
  of this module) returns the sequence of dataset chunks of a source. Here the rows are cut
  into consecutive chunks of \<^verbatim>\<open>batch_size\<close> rows, and into one chunk without a batch
  size.
\<close>

definition read_chunks :: "int list \<Rightarrow> string list option \<Rightarrow> int \<Rightarrow> int option \<Rightarrow> read_csv_params_t
    \<Rightarrow> int list list" where
  "read_chunks src features_names jobs batch_size csv =
     (case batch_size of None \<Rightarrow> chunks (length src) src | Some b \<Rightarrow> chunks (nat b) src)"

text \<open>
  Modelled from the spec: \<^verbatim>\<open>predict\<close> of the underlying engine (the base preset, not
  part of this module) maps a dataset to predictions. Here each row is predicted on its
  own, as twice its value.
\<close>

definition double_predict :: "int list \<Rightarrow> string list option \<Rightarrow> (int, string) NumpyDataset" where
  "double_predict ds features_names =
     \<lparr>data = map (\<lambda>x. 2 * x) ds, features = [''pred''], roles = []\<rparr>"

text \<open>
  Modelled from the spec: \<^verbatim>\<open>fit_predict\<close> of the underlying engine (the base preset,
  not part of this module). Here it only records the training dataset, the roles and the
  validation data it is given.
\<close>

definition record_fit :: "int list \<Rightarrow> (string \<times> string) list \<Rightarrow> unit option \<Rightarrow> string option
    \<Rightarrow> int list \<times> (string \<times> string) list \<times> string option" where
  "record_fit train r cv_iter valid_data = (train, r, valid_data)"

text \<open>A reader of file names: the rows behind a path, and the role of the target.\<close>

definition read_file :: "string \<Rightarrow> string list option \<Rightarrow> int \<Rightarrow> read_csv_params_t
    \<Rightarrow> int list \<times> (string \<times> string) list option" where
  "read_file path features_names cpu csv =
     (if path = ''train.csv'' then ([1, 2, 3], Some [(''y'', ''target'')])
      else if path = ''valid.csv'' then ([4, 5], None)
      else ([], None))"

text \<open>A second reader, which differs from \<open>read_file\<close> on the validation file only.\<close>

definition read_file_alt :: "string \<Rightarrow> string list option \<Rightarrow> int \<Rightarrow> read_csv_params_t
    \<Rightarrow> int list \<times> (string \<times> string) list option" where
  "read_file_alt path features_names cpu csv =
     (if path = ''valid.csv'' then ([6, 7, 8], Some [(''z'', ''drop'')])
      else read_file path features_names cpu csv)"

section \<open>Facts about the cost table and the estimate\<close>

lemma time_scores_cost_keys: "(time_scores m = None) = (m \<notin> set cost_keys)"
  by (simp add: time_scores_def cost_keys_def)

lemma time_scores_pos: "time_scores m = Some sc \<Longrightarrow> 0 < sc"
  by (auto simp: time_scores_def split: if_splits)

lemma get_time_score_KeyError:
  "time_scores m = None \<Longrightarrow> get_time_score self n m nested = Inl KeyError"
  by (simp add: get_time_score_def)

lemma get_time_score_Inr:
  "time_scores m = Some sc \<Longrightarrow> \<exists>r. get_time_score self n m nested = Inr r"
  by (simp add: get_time_score_def Let_def)

lemma get_time_score_not_ValueError: "get_time_score self n m nested \<noteq> Inl ValueError"
  by (simp add: get_time_score_def Let_def split: option.splits)

section \<open>Tuning iterations are a step function of the row count\<close>

lemma tuning_infer_n_jobs [simp]: "tuning_params (infer_n_jobs s c) = tuning_params s"
  by (simp add: infer_n_jobs_def Let_def)

lemma tuning_infer_gpu [simp]: "tuning_params (infer_gpu s g) = tuning_params s"
  by (simp add: infer_gpu_def Let_def split: option.splits)

lemma tuning_infer_nested_cv [simp]: "tuning_params (infer_nested_cv s) = tuning_params s"
  by (simp add: infer_nested_cv_def)

lemma tuning_infer_use_algos [simp]: "tuning_params (infer_use_algos s b) = tuning_params s"
  by (simp add: infer_use_algos_def)

text \<open>
  Claim C4. Whatever the row count, parameter inference leaves a concrete tuning iteration
  budget as it is, and resolves \<^verbatim>\<open>'auto'\<close> to 100 below 10000 rows, to 50 below 30000,
  to 10 below 100000 and to 5 from 100000 rows on; a row count equal to a boundary falls
  into the next bracket.
\<close>

theorem infer_max_tuning_iter_step:
  "max_tuning_iter (tuning_params (infer_auto_params self len multilevel_avail gpu_cnt os_cpu_count)) =
     (case max_tuning_iter (tuning_params self) of
        Auto \<Rightarrow> Val (if len < 10000 then 100 else if len < 30000 then 50
                     else if len < 100000 then 10 else 5)
      | Val v \<Rightarrow> Val v)"
  by (simp add: infer_auto_params_def infer_max_tuning_iter_def split: auto_or.splits)

theorem infer_max_tuning_iter_step_witness:
  "max_tuning_iter (tuning_params (infer_auto_params example_automl 9999 False 0 4)) = Val 100
   \<and> max_tuning_iter (tuning_params (infer_auto_params example_automl 10000 False 0 4)) = Val 50
   \<and> max_tuning_iter (tuning_params (infer_auto_params example_automl 29999 False 0 4)) = Val 50
   \<and> max_tuning_iter (tuning_params (infer_auto_params example_automl 30000 False 0 4)) = Val 10
   \<and> max_tuning_iter (tuning_params (infer_auto_params example_automl 99999 False 0 4)) = Val 10
   \<and> max_tuning_iter (tuning_params (infer_auto_params example_automl 100000 False 0 4)) = Val 5
   \<and> max_tuning_iter (tuning_params (infer_auto_params
        (example_automl\<lparr>tuning_params := (tuning_params example_automl)\<lparr>max_tuning_iter := Val 7\<rparr>\<rparr>)
        500000 False 0 4)) = Val 7"
  using infer_max_tuning_iter_step [of example_automl 9999 False 0 4]
    infer_max_tuning_iter_step [of example_automl 10000 False 0 4]
    infer_max_tuning_iter_step [of example_automl 29999 False 0 4]
    infer_max_tuning_iter_step [of example_automl 30000 False 0 4]
    infer_max_tuning_iter_step [of example_automl 99999 False 0 4]
    infer_max_tuning_iter_step [of example_automl 100000 False 0 4]
    infer_max_tuning_iter_step [of "example_automl\<lparr>tuning_params := (tuning_params example_automl)\<lparr>max_tuning_iter := Val 7\<rparr>\<rparr>" 500000 False 0 4]
  by (simp add: example_automl_def)

section \<open>The estimate across stacking levels\<close>

lemma get_time_score_nested:
  assumes "time_scores m = Some sc"
  shows "get_time_score self n m (Some True) =
           Inr (sc * (real_of_int (fold_count self)
                  * (if n > 1 then (if skip_conn (general_params self) then 0.8 else 0.1) else 1))
                * (if m \<in> set [''cb'', ''cb_tuned'']
                       \<and> task_type (cb_default_params (cb_params self)) = ''GPU''
                   then 0.5 else 1))"
  using assms by (simp add: get_time_score_def fold_count_def Let_def split: option.splits)

lemma with_skip_conn_simps [simp]:
  "skip_conn (general_params (with_skip_conn self b)) = b"
  "nested_cv_params (with_skip_conn self b) = nested_cv_params self"
  "cb_params (with_skip_conn self b) = cb_params self"
  by (simp_all add: with_skip_conn_def)

lemma fold_count_with_skip_conn [simp]: "fold_count (with_skip_conn self b) = fold_count self"
  by (simp add: fold_count_def split: option.splits)

text \<open>
  Claim C2, as the code has it. For a model type of the relative cost table and a nested
  estimate with a positive fold count, the score of level 1 does not depend on the
  skip-connection flag; levels 2 and 3 get one and the same score (the factor applies once
  to every level above the first), which is below the score of level 1; and at level 2 the
  score without skip connections (factor 0.1) is below the score with them (factor 0.8),
  which is below the score of level 1.
\<close>

theorem time_score_levels:
  assumes "m \<in> set cost_keys" and "0 < fold_count self"
  shows "\<exists>l1 off on.
     get_time_score (with_skip_conn self False) 1 m (Some True) = Inr l1 \<and>
     get_time_score (with_skip_conn self True) 1 m (Some True) = Inr l1 \<and>
     get_time_score (with_skip_conn self False) 2 m (Some True) = Inr off \<and>
     get_time_score (with_skip_conn self False) 3 m (Some True) = Inr off \<and>
     get_time_score (with_skip_conn self True) 2 m (Some True) = Inr on \<and>
     get_time_score (with_skip_conn self True) 3 m (Some True) = Inr on \<and>
     off < on \<and> on < l1"
proof -
  from assms(1) obtain sc where sc: "time_scores m = Some sc"
    using time_scores_cost_keys [of m] by auto
  define f where "f = real_of_int (fold_count self)"
  define g :: real where "g = (if m \<in> set [''cb'', ''cb_tuned'']
       \<and> task_type (cb_default_params (cb_params self)) = ''GPU'' then 0.5 else 1)"
  define x where "x = sc * f * g"
  have "0 < sc" "0 < f" "0 < g"
    using time_scores_pos [OF sc] assms(2) by (simp_all add: f_def g_def)
  then have x: "0 < x" by (simp add: x_def)
  have e1: "get_time_score (with_skip_conn self b) 1 m (Some True) = Inr x" for b
    using get_time_score_nested [OF sc, of "with_skip_conn self b" 1]
    by (simp add: f_def g_def x_def)
  have e2: "get_time_score (with_skip_conn self False) n m (Some True) = Inr (x / 10)"
    if "n > 1" for n
    using get_time_score_nested [OF sc, of "with_skip_conn self False" n] that
    by (simp add: f_def g_def x_def)
  have e3: "get_time_score (with_skip_conn self True) n m (Some True) = Inr (x * 8 / 10)"
    if "n > 1" for n
    using get_time_score_nested [OF sc, of "with_skip_conn self True" n] that
    by (simp add: f_def g_def x_def)
  have o1: "x / 10 < x * 8 / 10" using x by simp
  have o2: "x * 8 / 10 < x" using x by simp
  have l2: "(2::int) > 1" and l3: "(3::int) > 1" by simp_all
  show ?thesis
    using e1 [of False] e1 [of True] e2 [OF l2] e2 [OF l3] e3 [OF l2] e3 [OF l3] o1 o2
    by (intro exI [of _ x] exI [of _ "x / 10"] exI [of _ "x * 8 / 10"] conjI)
qed

theorem time_score_levels_witness:
  "get_time_score (with_skip_conn example_automl False) 1 ''cb_tuned'' (Some True) = Inr 18
   \<and> get_time_score (with_skip_conn example_automl True) 1 ''cb_tuned'' (Some True) = Inr 18
   \<and> get_time_score (with_skip_conn example_automl False) 2 ''cb_tuned'' (Some True) = Inr (9/5)
   \<and> get_time_score (with_skip_conn example_automl True) 2 ''cb_tuned'' (Some True) = Inr (72/5)
   \<and> get_time_score (with_skip_conn example_automl True) 3 ''cb_tuned'' (Some True) = Inr (72/5)"
proof -
  have k: "''cb_tuned'' \<in> set cost_keys" by (simp add: cost_keys_def)
  have f: "0 < fold_count example_automl" by (simp add: fold_count_def example_automl_def)
  show ?thesis
    using time_score_levels [OF k f]
    by (simp add: get_time_score_def with_skip_conn_def example_automl_def time_scores_def)
qed

text \<open>
  The estimate does not decrease from level 2 to level 3: both levels get the same score,
  with skip connections and without.
\<close>

theorem time_score_level_counterexample:
  "get_time_score (with_skip_conn example_automl False) 2 ''lgb'' (Some True) = Inr (3/10)
   \<and> get_time_score (with_skip_conn example_automl False) 3 ''lgb'' (Some True) = Inr (3/10)
   \<and> get_time_score (with_skip_conn example_automl True) 2 ''lgb'' (Some True) = Inr (12/5)
   \<and> get_time_score (with_skip_conn example_automl True) 3 ''lgb'' (Some True) = Inr (12/5)
   \<and> \<not> ((3/10 :: real) < 3/10) \<and> \<not> ((12/5 :: real) < 12/5)"
  by (simp add: get_time_score_def with_skip_conn_def example_automl_def time_scores_def)

section \<open>Nested cross-validation switched off\<close>

lemma general_infer_n_jobs [simp]: "general_params (infer_n_jobs s c) = general_params s"
  by (simp add: infer_n_jobs_def Let_def)

lemma general_infer_gpu [simp]: "general_params (infer_gpu s g) = general_params s"
  by (simp add: infer_gpu_def Let_def split: option.splits)

lemma general_infer_nested_cv [simp]: "general_params (infer_nested_cv s) = general_params s"
  by (simp add: infer_nested_cv_def)

lemma nested_cv_infer_use_algos [simp]:
  "nested_cv (general_params (infer_use_algos s b)) = nested_cv (general_params s)"
  by (simp add: infer_use_algos_def)

lemma general_infer_max_tuning_iter [simp]:
  "general_params (infer_max_tuning_iter s l) = general_params s"
  by (simp add: infer_max_tuning_iter_def)

lemma nested_infer_n_jobs [simp]: "nested_cv_params (infer_n_jobs s c) = nested_cv_params s"
  by (simp add: infer_n_jobs_def Let_def)

lemma nested_infer_gpu [simp]: "nested_cv_params (infer_gpu s g) = nested_cv_params s"
  by (simp add: infer_gpu_def Let_def split: option.splits)

lemma nested_infer_use_algos [simp]: "nested_cv_params (infer_use_algos s b) = nested_cv_params s"
  by (simp add: infer_use_algos_def)

lemma nested_infer_max_tuning_iter [simp]:
  "nested_cv_params (infer_max_tuning_iter s l) = nested_cv_params s"
  by (simp add: infer_max_tuning_iter_def)

lemma infer_keeps_nested_cv:
  "nested_cv (general_params (infer_auto_params self len ml g c)) = nested_cv (general_params self)"
  by (simp add: infer_auto_params_def)

lemma infer_cv:
  "nested_cv_params (infer_auto_params self len ml g c) =
     (if \<not> nested_cv (general_params self) then (nested_cv_params self)\<lparr>cv := 1\<rparr>
      else nested_cv_params self)"
  by (simp add: infer_auto_params_def infer_nested_cv_def)

lemma get_time_score_not_nested:
  assumes "nested = Some False \<or> (nested = None \<and> \<not> nested_cv (general_params s))"
  shows "get_time_score s n m nested = get_time_score (single_fold s) n m (Some True)"
  using assms
  by (auto simp add: get_time_score_def single_fold_def Let_def split: option.splits)

lemma get_linear_nested_params:
  "get_linear s n sel = Inr p \<Longrightarrow> nested_params p = nested_cv_params s"
  by (auto simp: get_linear_def Let_def split: sum.splits)

lemma get_gbms_nested_params:
  "get_gbms s keys n sel = Inr p \<Longrightarrow> nested_params p = nested_cv_params s"
  by (auto simp: get_gbms_def Let_def split: sum.splits prod.splits)

text \<open>
  Claim C3, as the code has it. When nested cross-validation is switched off in the general
  parameters, parameter inference sets the nested fold count \<^verbatim>\<open>cv\<close> to 1 whatever
  was configured, and leaves the fold cap \<^verbatim>\<open>n_folds\<close> as configured. On the inferred
  object every budget estimate made with the default \<^verbatim>\<open>nested\<close> argument (as the
  level builders make it) or with \<^verbatim>\<open>nested=False\<close> (as the selector builder makes
  it) is the estimate of a single fold, while an estimate asked for with
  \<^verbatim>\<open>nested=True\<close> multiplies by the fold cap if one is configured and by 1 otherwise.
  Every pipeline built by the linear and the boosting builder is given the fold count 1
  together with the configured fold cap.
\<close>

theorem nested_cv_disabled_sets_cv:
  assumes "\<not> nested_cv (general_params self)"
  shows "nested_cv_params (infer_auto_params self len multilevel_avail gpu_cnt os_cpu_count)
        = (nested_cv_params self)\<lparr>cv := 1\<rparr>
    \<and> fold_count (infer_auto_params self len multilevel_avail gpu_cnt os_cpu_count)
        = (case n_folds (nested_cv_params self) of Some nf \<Rightarrow> nf | None \<Rightarrow> 1)
    \<and> (\<forall>n m. get_time_score (infer_auto_params self len multilevel_avail gpu_cnt os_cpu_count) n m None
             = get_time_score (single_fold (infer_auto_params self len multilevel_avail gpu_cnt os_cpu_count))
                 n m (Some True))
    \<and> (\<forall>n m. get_time_score (infer_auto_params self len multilevel_avail gpu_cnt os_cpu_count) n m (Some False)
             = get_time_score (single_fold (infer_auto_params self len multilevel_avail gpu_cnt os_cpu_count))
                 n m (Some True))
    \<and> (\<forall>m sc. time_scores m = Some sc \<longrightarrow>
          get_time_score (infer_auto_params self len multilevel_avail gpu_cnt os_cpu_count) 1 m (Some True)
             = Inr (sc * real_of_int (case n_folds (nested_cv_params self) of Some nf \<Rightarrow> nf | None \<Rightarrow> 1)
                  * (if m \<in> set [''cb'', ''cb_tuned'']
                        \<and> task_type (cb_default_params (cb_params
                             (infer_auto_params self len multilevel_avail gpu_cnt os_cpu_count))) = ''GPU''
                     then 0.5 else 1)))
    \<and> (\<forall>n sel p. get_linear (infer_auto_params self len multilevel_avail gpu_cnt os_cpu_count) n sel = Inr p
             \<longrightarrow> nested_params p = (nested_cv_params self)\<lparr>cv := 1\<rparr>)
    \<and> (\<forall>keys n sel p. get_gbms (infer_auto_params self len multilevel_avail gpu_cnt os_cpu_count) keys n sel = Inr p
             \<longrightarrow> nested_params p = (nested_cv_params self)\<lparr>cv := 1\<rparr>)"
proof -
  let ?s = "infer_auto_params self len multilevel_avail gpu_cnt os_cpu_count"
  have off: "\<not> nested_cv (general_params ?s)" using assms by (simp add: infer_keeps_nested_cv)
  have c: "nested_cv_params ?s = (nested_cv_params self)\<lparr>cv := 1\<rparr>"
    using assms by (simp add: infer_cv)
  have f: "fold_count ?s = (case n_folds (nested_cv_params self) of Some nf \<Rightarrow> nf | None \<Rightarrow> 1)"
    unfolding fold_count_def c by (simp split: option.splits)
  have a: "get_time_score ?s n m None = get_time_score (single_fold ?s) n m (Some True)" for n m
    using off by (rule_tac get_time_score_not_nested) simp
  have b: "get_time_score ?s n m (Some False) = get_time_score (single_fold ?s) n m (Some True)" for n m
    by (rule get_time_score_not_nested) simp
  have t: "get_time_score ?s 1 m (Some True)
      = Inr (sc * real_of_int (case n_folds (nested_cv_params self) of Some nf \<Rightarrow> nf | None \<Rightarrow> 1)
           * (if m \<in> set [''cb'', ''cb_tuned'']
                 \<and> task_type (cb_default_params (cb_params ?s)) = ''GPU'' then 0.5 else 1))"
    if "time_scores m = Some sc" for m sc
    using get_time_score_nested [OF that, of ?s 1] unfolding f by simp
  have l: "nested_params p = (nested_cv_params self)\<lparr>cv := 1\<rparr>"
    if "get_linear ?s n sel = Inr p" for n sel p
    using get_linear_nested_params [OF that] c by simp
  have g: "nested_params p = (nested_cv_params self)\<lparr>cv := 1\<rparr>"
    if "get_gbms ?s keys n sel = Inr p" for keys n sel p
    using get_gbms_nested_params [OF that] c by simp
  show ?thesis using c f a b t l g by blast
qed

theorem nested_cv_disabled_sets_cv_witness:
  "\<not> nested_cv (general_params example_automl)
   \<and> nested_cv_params example_automl = \<lparr>cv = 5, n_folds = Some 3\<rparr>
   \<and> nested_cv_params (infer_auto_params example_automl 5000 True 0 4) = \<lparr>cv = 1, n_folds = Some 3\<rparr>
   \<and> get_time_score (infer_auto_params example_automl 5000 True 0 4) 1 ''lgb_tuned'' None = Inr 3
   \<and> get_time_score (infer_auto_params example_automl 5000 True 0 4) 1 ''lgb'' (Some False) = Inr 1
   \<and> get_time_score (infer_auto_params example_automl 5000 True 0 4) 1 ''lgb'' (Some True) = Inr 3"
proof -
  have h: "\<not> nested_cv (general_params example_automl)" by (simp add: example_automl_def)
  have e1: "get_time_score (single_fold (infer_auto_params example_automl 5000 True 0 4)) 1 ''lgb_tuned'' (Some True) = Inr 3"
    by (simp add: get_time_score_def single_fold_def time_scores_def infer_auto_params_def
        infer_n_jobs_def infer_gpu_def example_automl_def)
  have e2: "get_time_score (single_fold (infer_auto_params example_automl 5000 True 0 4)) 1 ''lgb'' (Some True) = Inr 1"
    by (simp add: get_time_score_def single_fold_def time_scores_def infer_auto_params_def
        infer_n_jobs_def infer_gpu_def example_automl_def)
  have k: "time_scores ''lgb'' = Some 1" by (simp add: time_scores_def)
  note t = nested_cv_disabled_sets_cv [OF h, of 5000 True 0 4]
  from t have p: "nested_cv_params (infer_auto_params example_automl 5000 True 0 4)
      = (nested_cv_params example_automl)\<lparr>cv := 1\<rparr>" by (rule conjunct1)
  note e3 = t [THEN conjunct2, THEN conjunct2, THEN conjunct2, THEN conjunct2, THEN conjunct1,
      rule_format, OF k]
  have a: "get_time_score (infer_auto_params example_automl 5000 True 0 4) 1 ''lgb_tuned'' None
      = get_time_score (single_fold (infer_auto_params example_automl 5000 True 0 4)) 1 ''lgb_tuned'' (Some True)"
    by (rule t [THEN conjunct2, THEN conjunct2, THEN conjunct1, rule_format])
  have b: "get_time_score (infer_auto_params example_automl 5000 True 0 4) 1 ''lgb'' (Some False)
      = get_time_score (single_fold (infer_auto_params example_automl 5000 True 0 4)) 1 ''lgb'' (Some True)"
    by (rule t [THEN conjunct2, THEN conjunct2, THEN conjunct2, THEN conjunct1, rule_format])
  have n: "nested_cv_params example_automl = \<lparr>cv = 5, n_folds = Some 3\<rparr>"
    by (simp add: example_automl_def)
  have e3': "get_time_score (infer_auto_params example_automl 5000 True 0 4) 1 ''lgb'' (Some True) = Inr 3"
    using e3 unfolding n by simp
  show ?thesis using h n p a b e1 e2 e3' by simp
qed

text \<open>
  The fold cap outlives the inference: with nested cross-validation off and a cap of 3
  configured, the inferred object still carries the cap, an estimate asked for with
  \<^verbatim>\<open>nested=True\<close> multiplies by 3, and the linear pipeline is built with the cap 3
  beside the fold count 1.
\<close>

theorem nested_cv_disabled_counterexample:
  "\<not> nested_cv (general_params example_automl)
   \<and> n_folds (nested_cv_params (infer_auto_params example_automl 5000 True 0 4)) = Some 3
   \<and> get_time_score (infer_auto_params example_automl 5000 True 0 4) 1 ''lgb'' (Some True) = Inr 3
   \<and> get_time_score (single_fold (infer_auto_params example_automl 5000 True 0 4)) 1 ''lgb''
        (Some True) = Inr 1
   \<and> nested_params (projr (get_linear (infer_auto_params example_automl 5000 True 0 4) 1 None))
        = \<lparr>cv = 1, n_folds = Some 3\<rparr>"
proof -
  have h: "\<not> nested_cv (general_params example_automl)" by (simp add: example_automl_def)
  have c: "nested_cv_params (infer_auto_params example_automl 5000 True 0 4)
      = \<lparr>cv = 1, n_folds = Some 3\<rparr>"
    using h by (simp add: infer_cv) (simp add: example_automl_def)
  have k: "time_scores ''lgb'' = Some 1" by (simp add: time_scores_def)
  have f: "fold_count (infer_auto_params example_automl 5000 True 0 4) = 3"
    unfolding fold_count_def c by simp
  have e: "get_time_score (infer_auto_params example_automl 5000 True 0 4) 1 ''lgb'' (Some True) = Inr 3"
    using get_time_score_nested [OF k, of "infer_auto_params example_automl 5000 True 0 4" 1]
    unfolding f by simp
  have s: "get_time_score (single_fold (infer_auto_params example_automl 5000 True 0 4)) 1 ''lgb''
        (Some True) = Inr 1"
    using get_time_score_nested [OF k, of "single_fold (infer_auto_params example_automl 5000 True 0 4)" 1]
    by (simp add: fold_count_def single_fold_def)
  have kl: "time_scores ''linear_l2'' = Some 0.7" by (simp add: time_scores_def)
  from get_time_score_Inr [OF kl] obtain r where
    r: "get_time_score (infer_auto_params example_automl 5000 True 0 4) 1 ''linear_l2'' None = Inr r"
    by blast
  have l: "nested_params (projr (get_linear (infer_auto_params example_automl 5000 True 0 4) 1 None))
        = \<lparr>cv = 1, n_folds = Some 3\<rparr>"
    by (simp add: get_linear_def r Let_def c)
  show ?thesis using h c e s l by simp
qed

section \<open>The selection mode\<close>

lemma get_time_score_lgb_Inr: "\<exists>r. get_time_score self n ''lgb'' nested = Inr r"
  by (rule get_time_score_Inr [of _ 1]) (simp add: time_scores_def)

text \<open>
  Claim C5, as the code has it. The selection-pipeline builder returns \<^verbatim>\<open>None\<close> when
  the mode is 0 (and for every mode that is not positive), a single importance-cutoff
  selector when the mode is 1 (and for every positive mode other than 2), and for mode 2
  the composition of the cutoff selector and an iterative selector with permutation
  importance, in this order. It raises no error for any mode.
\<close>

theorem get_selector_modes:
  "(mode (selection_params self) \<le> 0 \<longrightarrow> get_selector self n = Inr None)
   \<and> (0 < mode (selection_params self) \<and> mode (selection_params self) \<noteq> 2 \<longrightarrow>
        (\<exists>gbm imp. get_selector self n =
           Inr (Some (ImportanceCutoffSelector LGBSimpleFeatures gbm imp
                  (cutoff (selection_params self)) (sel_fit_on_holdout (selection_params self))))))
   \<and> (mode (selection_params self) = 2 \<longrightarrow>
        (\<exists>gbm imp gbm'. get_selector self n =
           Inr (Some (ComposedSelector
             [ImportanceCutoffSelector LGBSimpleFeatures gbm imp
                (cutoff (selection_params self)) (sel_fit_on_holdout (selection_params self)),
              NpIterativeFeatureSelector LGBSimpleFeatures gbm' NpPermutationImportanceEstimator
                (feature_group_size (selection_params self))
                (max_features_cnt_in_result (selection_params self))]))))
   \<and> (\<forall>e. get_selector self n \<noteq> Inl e)"
proof -
  obtain r where r: "get_time_score self n ''lgb'' (Some False) = Inr r"
    using get_time_score_lgb_Inr by blast
  show ?thesis
    by (simp add: get_selector_def Let_def r)
qed

theorem get_selector_modes_witness:
  "get_selector (with_mode example_automl 0) 1 = Inr None
   \<and> get_selector (with_mode example_automl 1) 1 =
       Inr (Some (ImportanceCutoffSelector LGBSimpleFeatures
         (BoostLGBM \<lparr>timer_key = ''lgb'', timer_score = 1\<rparr>
            \<lparr>lgb_default_params = \<lparr>num_threads = 8, feature_fraction = 1\<rparr>, lgb_other = []\<rparr>)
         NpPermutationImportanceEstimator 0 True))
   \<and> get_selector (with_mode example_automl 2) 1 =
       Inr (Some (ComposedSelector
         [ImportanceCutoffSelector LGBSimpleFeatures
            (BoostLGBM \<lparr>timer_key = ''lgb'', timer_score = 1\<rparr>
               \<lparr>lgb_default_params = \<lparr>num_threads = 8, feature_fraction = 1\<rparr>, lgb_other = []\<rparr>)
            NpPermutationImportanceEstimator 0 True,
          NpIterativeFeatureSelector LGBSimpleFeatures
            (BoostLGBM \<lparr>timer_key = ''lgb'', timer_score = 1\<rparr>
               \<lparr>lgb_default_params = \<lparr>num_threads = 8, feature_fraction = 1\<rparr>, lgb_other = []\<rparr>)
            NpPermutationImportanceEstimator 1 None]))"
  using get_selector_modes [of "with_mode example_automl 0" 1]
    get_selector_modes [of "with_mode example_automl 1" 1]
    get_selector_modes [of "with_mode example_automl 2" 1]
  by (simp add: get_selector_def get_time_score_def time_scores_def get_task_timer_def
      with_mode_def example_automl_def Let_def)

text \<open>
  Modes outside 0, 1 and 2 raise no \<^verbatim>\<open>ValueError\<close>: mode 3 builds the cutoff
  selector of mode 1, and mode -1 returns \<^verbatim>\<open>None\<close>.
\<close>

theorem get_selector_mode_counterexample:
  "get_selector (with_mode example_automl 3) 1 =
       Inr (Some (ImportanceCutoffSelector LGBSimpleFeatures
         (BoostLGBM \<lparr>timer_key = ''lgb'', timer_score = 1\<rparr>
            \<lparr>lgb_default_params = \<lparr>num_threads = 8, feature_fraction = 1\<rparr>, lgb_other = []\<rparr>)
         NpPermutationImportanceEstimator 0 True))
   \<and> get_selector (with_mode example_automl 3) 1 \<noteq> Inl ValueError
   \<and> get_selector (with_mode example_automl (- 1)) 1 = Inr None
   \<and> get_selector (with_mode example_automl (- 1)) 1 \<noteq> Inl ValueError"
  by (simp add: get_selector_def get_time_score_def time_scores_def get_task_timer_def
      with_mode_def example_automl_def Let_def)

section \<open>The boosting level builder\<close>

lemma zip_take_length: "zip (take (length ys) xs) ys = zip xs ys"
proof (induction ys arbitrary: xs)
  case Nil
  then show ?case by simp
next
  case (Cons y ys)
  then show ?case by (cases xs) simp_all
qed

lemma length_four: "length [a, b, c, d] = 4"
  by simp

lemma zip_four_take:
  "zip keys [a, b, c, d] = zip (take 4 keys) [a, b, c, d]"
  using zip_take_length [of "[a, b, c, d]" keys] unfolding length_four by simp

lemma map_fst_zip_four: "map fst (zip keys [a, b, c, d]) = take 4 keys"
  using map_fst_zip_take [of keys "[a, b, c, d]"] unfolding length_four
  by (simp add: min_def)

lemma map_snd_zip_four: "map snd (zip keys [a, b, c, d]) = take (length keys) [a, b, c, d]"
  using map_snd_zip_take [of keys "[a, b, c, d]"] unfolding length_four
  by (simp add: min_def)

lemma gbms_loop_Cons_Inl:
  "get_time_score self n key None = Inl e \<Longrightarrow>
     gbms_loop self n ((key, force) # zs) algos forces = Inl e"
  by (simp add: Let_def)

lemma gbms_loop_Cons_bad:
  "get_time_score self n key None = Inr ts \<Longrightarrow> \<not> gbm_base key \<Longrightarrow>
     gbms_loop self n ((key, force) # zs) algos forces = Inl ValueError"
  by (simp add: Let_def gbm_base_def)

lemma gbms_loop_Cons_ok:
  assumes "get_time_score self n key None = Inr ts" and "gbm_base key"
  shows "\<exists>u. unit_timer_key u = split_head key \<and>
     (\<forall>algos forces. gbms_loop self n ((key, force) # zs) algos forces =
        gbms_loop self n zs (algos @ [u]) (forces @ [force]))"
proof -
  define m where "m = (if split_head key = ''lgb''
     then BoostLGBM (get_task_timer (split_head key) ts) (lgb_params self)
     else BoostCB (get_task_timer (split_head key) ts) (cb_params self))"
  define u where "u = (if str_in ''_tuned'' key then
       ModelTuner m \<lparr>n_trials = max_tuning_iter (tuning_params self),
                     timeout = max_tuning_time (tuning_params self),
                     fit_on_holdout = tun_fit_on_holdout (tuning_params self)\<rparr>
     else Model m)"
  have k: "unit_timer_key u = split_head key"
    by (simp add: u_def m_def get_task_timer_def)
  have "gbms_loop self n ((key, force) # zs) algos forces =
        gbms_loop self n zs (algos @ [u]) (forces @ [force])" for algos forces
    using assms unfolding u_def m_def gbm_base_def by (simp add: Let_def)
  with k show ?thesis by blast
qed

lemma gbms_loop_result:
  "gbms_loop self n zs algos forces = Inr (algos', forces') \<Longrightarrow>
     \<exists>us. algos' = algos @ us \<and> forces' = forces @ map snd zs
          \<and> map unit_timer_key us = map (\<lambda>z. split_head (fst z)) zs"
proof (induction zs arbitrary: algos forces)
  case Nil
  then show ?case by simp
next
  case (Cons z zs)
  obtain key force where z: "z = (key, force)" by (cases z)
  show ?case
  proof (cases "get_time_score self n key None")
    case (Inl e)
    from gbms_loop_Cons_Inl [OF this] Cons.prems z show ?thesis by simp
  next
    case (Inr ts)
    show ?thesis
    proof (cases "gbm_base key")
      case False
      from gbms_loop_Cons_bad [OF Inr False] Cons.prems z show ?thesis by simp
    next
      case True
      from gbms_loop_Cons_ok [OF Inr True, of force zs] obtain u where
        u: "unit_timer_key u = split_head key"
        and step: "\<And>algos forces. gbms_loop self n ((key, force) # zs) algos forces =
           gbms_loop self n zs (algos @ [u]) (forces @ [force])" by blast
      from Cons.prems z step have
        rec: "gbms_loop self n zs (algos @ [u]) (forces @ [force]) = Inr (algos', forces')" by simp
      from Cons.IH [OF rec] obtain us where
        "algos' = (algos @ [u]) @ us" "forces' = (forces @ [force]) @ map snd zs"
        "map unit_timer_key us = map (\<lambda>z. split_head (fst z)) zs" by blast
      then show ?thesis using z u by (intro exI [of _ "u # us"]) simp
    qed
  qed
qed

lemma gbms_loop_ValueError:
  "gbms_loop self n zs algos forces = Inl ValueError \<Longrightarrow> \<exists>k\<in>set (map fst zs). \<not> gbm_base k"
proof (induction zs arbitrary: algos forces)
  case Nil
  then show ?case by simp
next
  case (Cons z zs)
  obtain key force where z: "z = (key, force)" by (cases z)
  show ?case
  proof (cases "gbm_base key")
    case False
    then show ?thesis using z by simp
  next
    case True
    show ?thesis
    proof (cases "get_time_score self n key None")
      case (Inl e)
      from gbms_loop_Cons_Inl [OF this] Cons.prems z have "e = ValueError" by simp
      with Inl get_time_score_not_ValueError [of self n key None] show ?thesis by simp
    next
      case (Inr ts)
      from gbms_loop_Cons_ok [OF Inr True, of force zs] Cons.prems z obtain u where
        "gbms_loop self n zs (algos @ [u]) (forces @ [force]) = Inl ValueError" by auto
      from Cons.IH [OF this] show ?thesis by auto
    qed
  qed
qed

lemma gbms_loop_total:
  "\<forall>k\<in>set (map fst zs). k \<in> set cost_keys \<and> gbm_base k \<Longrightarrow>
     \<exists>r. gbms_loop self n zs algos forces = Inr r"
proof (induction zs arbitrary: algos forces)
  case Nil
  then show ?case by simp
next
  case (Cons z zs)
  obtain key force where z: "z = (key, force)" by (cases z)
  from Cons.prems z have k: "key \<in> set cost_keys" and b: "gbm_base key" by simp_all
  from k obtain sc where "time_scores key = Some sc" using time_scores_cost_keys [of key] by auto
  then obtain ts where ts: "get_time_score self n key None = Inr ts"
    using get_time_score_Inr by blast
  have rest: "\<forall>k\<in>set (map fst zs). k \<in> set cost_keys \<and> gbm_base k" using Cons.prems by simp
  from gbms_loop_Cons_ok [OF ts b, of force zs] obtain u where
    "gbms_loop self n ((key, force) # zs) algos forces =
       gbms_loop self n zs (algos @ [u]) (forces @ [force])" by blast
  with Cons.IH [OF rest, of "algos @ [u]" "forces @ [force]"] z show ?case by simp
qed

lemma gbms_loop_raises:
  "\<forall>k\<in>set (map fst zs). k \<in> set cost_keys \<Longrightarrow> \<exists>k\<in>set (map fst zs). \<not> gbm_base k \<Longrightarrow>
     gbms_loop self n zs algos forces = Inl ValueError"
proof (induction zs arbitrary: algos forces)
  case Nil
  then show ?case by simp
next
  case (Cons z zs)
  obtain key force where z: "z = (key, force)" by (cases z)
  from Cons.prems(1) z have k: "key \<in> set cost_keys" by simp
  from k obtain sc where "time_scores key = Some sc" using time_scores_cost_keys [of key] by auto
  then obtain ts where ts: "get_time_score self n key None = Inr ts"
    using get_time_score_Inr by blast
  show ?case
  proof (cases "gbm_base key")
    case False
    from gbms_loop_Cons_bad [OF ts False] z show ?thesis by simp
  next
    case True
    have r1: "\<forall>k\<in>set (map fst zs). k \<in> set cost_keys" using Cons.prems(1) by simp
    have r2: "\<exists>k\<in>set (map fst zs). \<not> gbm_base k" using Cons.prems(2) z True by auto
    from gbms_loop_Cons_ok [OF ts True, of force zs] obtain u where
      "gbms_loop self n ((key, force) # zs) algos forces =
         gbms_loop self n zs (algos @ [u]) (forces @ [force])" by blast
    with Cons.IH [OF r1 r2, of "algos @ [u]" "forces @ [force]"] z show ?thesis by simp
  qed
qed

lemma take_flags:
  assumes "0 < k"
  shows "take k [True, False, False, False] = True # replicate (min k 4 - 1) False"
proof -
  consider "k = 1" | "k = 2" | "k = 3" | "4 \<le> k" using assms by linarith
  then show ?thesis
    by cases (simp_all add: eval_nat_numeral min_def)
qed

lemma get_gbms_shape:
  assumes "get_gbms self keys n sel = Inr p"
  shows "force_calc p = ForceEach (take (length keys) [True, False, False, False])"
    and "map unit_timer_key (ml_algos p) = map split_head (take 4 keys)"
proof -
  let ?zs = "zip keys [True, False, False, False]"
  from assms obtain algos forces where
    loop: "gbms_loop self n ?zs [] [] = Inr (algos, forces)"
    and p: "ml_algos p = algos" "force_calc p = ForceEach forces"
    by (auto simp: get_gbms_def Let_def split: sum.splits prod.splits)
  from gbms_loop_result [OF loop] have
    f: "forces = map snd ?zs" and u: "map unit_timer_key algos = map (\<lambda>z. split_head (fst z)) ?zs"
    by auto
  show "force_calc p = ForceEach (take (length keys) [True, False, False, False])"
    using p f by (simp only: map_snd_zip_four)
  have "map (\<lambda>z. split_head (fst z)) ?zs = map split_head (map fst ?zs)" by simp
  also have "\<dots> = map split_head (take 4 keys)" by (simp only: map_fst_zip_four)
  finally show "map unit_timer_key (ml_algos p) = map split_head (take 4 keys)"
    using p u by simp
qed

lemma get_gbms_length:
  assumes "get_gbms self keys n sel = Inr p"
  shows "length (ml_algos p) = min (length keys) 4"
proof -
  have "length (map unit_timer_key (ml_algos p)) = length (map split_head (take 4 keys))"
    using get_gbms_shape(2) [OF assms] by simp
  then show ?thesis by simp
qed

lemma get_gbms_Inl_iff:
  "(get_gbms self keys n sel = Inl e) =
     (gbms_loop self n (zip keys [True, False, False, False]) [] [] = Inl e)"
  by (simp add: get_gbms_def Let_def split: sum.splits prod.splits)

lemma get_gbms_Inr_iff:
  "(\<exists>p. get_gbms self keys n sel = Inr p) =
     (\<exists>r. gbms_loop self n (zip keys [True, False, False, False]) [] [] = Inr r)"
  by (auto simp add: get_gbms_def Let_def split: sum.splits prod.splits)

text \<open>
  Claim C6, as the code has it. The boosting level builder reads the first four requested
  keys only. It raises \<^verbatim>\<open>ValueError\<close> only if one of them has a base algorithm that
  is neither \<^verbatim>\<open>lgb\<close> nor \<^verbatim>\<open>cb\<close>. When each of the first four keys is a key
  of the relative cost table, it raises \<^verbatim>\<open>ValueError\<close> if and only if one of them has
  such a base algorithm, and it raises nothing and returns the pipeline when all of them
  have base \<^verbatim>\<open>lgb\<close> or \<^verbatim>\<open>cb\<close>. The builder only constructs objects: an error
  is its whole result, with no pipeline to fit.
\<close>

theorem get_gbms_ValueError:
  "(get_gbms self keys n sel = Inl ValueError \<longrightarrow> (\<exists>k\<in>set (take 4 keys). \<not> gbm_base k))
   \<and> ((\<forall>k\<in>set (take 4 keys). k \<in> set cost_keys) \<longrightarrow>
        ((get_gbms self keys n sel = Inl ValueError) = (\<exists>k\<in>set (take 4 keys). \<not> gbm_base k))
        \<and> ((\<forall>k\<in>set (take 4 keys). gbm_base k) \<longrightarrow> (\<exists>p. get_gbms self keys n sel = Inr p)))"
proof -
  let ?zs = "zip keys [True, False, False, False]"
  have m: "map fst ?zs = take 4 keys" by (rule map_fst_zip_four)
  have a: "\<exists>k\<in>set (take 4 keys). \<not> gbm_base k" if "get_gbms self keys n sel = Inl ValueError"
    using gbms_loop_ValueError [of self n ?zs "[]" "[]"] that
    unfolding get_gbms_Inl_iff m by simp
  have b: "get_gbms self keys n sel = Inl ValueError"
    if "\<forall>k\<in>set (take 4 keys). k \<in> set cost_keys" "\<exists>k\<in>set (take 4 keys). \<not> gbm_base k"
    using gbms_loop_raises [of ?zs self n "[]" "[]"] that
    unfolding get_gbms_Inl_iff m by simp
  have c: "\<exists>p. get_gbms self keys n sel = Inr p"
    if "\<forall>k\<in>set (take 4 keys). k \<in> set cost_keys" "\<forall>k\<in>set (take 4 keys). gbm_base k"
    using gbms_loop_total [of ?zs self n "[]" "[]"] that
    unfolding get_gbms_Inr_iff m by simp
  show ?thesis using a b c by blast
qed

text \<open>
  Claim C7. For a non-empty key sequence on which the boosting level builder succeeds, the
  force-calc flags of the built units are \<^verbatim>\<open>True\<close> for the first unit and
  \<^verbatim>\<open>False\<close> for every later one, one flag per unit, and the units are those of the
  requested keys in order (the first unit belongs to the first key).
\<close>

theorem get_gbms_force_calc:
  assumes "keys \<noteq> []" and "get_gbms self keys n sel = Inr p"
  shows "force_calc p = ForceEach (True # replicate (length (ml_algos p) - 1) False)
     \<and> length (ml_algos p) = min (length keys) 4
     \<and> map unit_timer_key (ml_algos p) = map split_head (take 4 keys)"
proof -
  have k: "0 < length keys" using assms(1) by simp
  have l: "length (ml_algos p) = min (length keys) 4" by (rule get_gbms_length [OF assms(2)])
  show ?thesis
    using get_gbms_shape [OF assms(2)] take_flags [OF k] l by simp
qed

text \<open>
  Claim C10. The boosting level builder gives the same result, error or pipeline, as on the
  first four keys alone: the keys after the fourth add no unit, no timer and no error. A
  pipeline it returns has at most four units, one for each of the first four keys.
\<close>

theorem get_gbms_first_four:
  "get_gbms self keys n sel = get_gbms self (take 4 keys) n sel
   \<and> (\<forall>p. get_gbms self keys n sel = Inr p \<longrightarrow>
         length (ml_algos p) \<le> 4 \<and> length (ml_algos p) = min (length keys) 4
         \<and> map unit_timer_key (ml_algos p) = map split_head (take 4 keys))"
proof -
  have "get_gbms self keys n sel = get_gbms self (take 4 keys) n sel"
    unfolding get_gbms_def using zip_four_take [of keys True False False False] by simp
  moreover have "length (ml_algos p) \<le> 4 \<and> length (ml_algos p) = min (length keys) 4
         \<and> map unit_timer_key (ml_algos p) = map split_head (take 4 keys)"
    if "get_gbms self keys n sel = Inr p" for p
    using get_gbms_length [OF that] get_gbms_shape(2) [OF that] by simp
  ultimately show ?thesis by blast
qed


lemma get_gbms_total:
  assumes "\<forall>k\<in>set (take 4 keys). k \<in> set cost_keys \<and> gbm_base k"
  shows "\<exists>p. get_gbms self keys n sel = Inr p"
proof -
  have "\<forall>k\<in>set (map fst (zip keys [True, False, False, False])). k \<in> set cost_keys \<and> gbm_base k"
    using assms by (simp only: map_fst_zip_four)
  from gbms_loop_total [OF this] show ?thesis unfolding get_gbms_Inr_iff .
qed

theorem get_gbms_ValueError_witness:
  "get_gbms example_automl [''lgb'', ''linear_l2'', ''cb''] 1 None = Inl ValueError
   \<and> ''linear_l2'' \<in> set cost_keys \<and> \<not> gbm_base ''linear_l2''
   \<and> \<not> isl (get_gbms example_automl [''lgb'', ''cb_tuned''] 1 None)"
proof -
  have h1: "\<forall>k\<in>set (take 4 [''lgb'', ''linear_l2'', ''cb'']). k \<in> set cost_keys"
    by (simp add: cost_keys_def)
  have b1: "\<exists>k\<in>set (take 4 [''lgb'', ''linear_l2'', ''cb'']). \<not> gbm_base k"
    by (simp add: gbm_base_def split_head_def)
  have h2: "\<forall>k\<in>set (take 4 [''lgb'', ''cb_tuned'']). k \<in> set cost_keys"
    by (simp add: cost_keys_def)
  have g2: "\<forall>k\<in>set (take 4 [''lgb'', ''cb_tuned'']). gbm_base k"
    by (simp add: gbm_base_def split_head_def)
  have r1: "get_gbms example_automl [''lgb'', ''linear_l2'', ''cb''] 1 None = Inl ValueError"
    using get_gbms_ValueError [of example_automl "[''lgb'', ''linear_l2'', ''cb'']" 1 None] h1 b1
    by blast
  have r2: "\<exists>p. get_gbms example_automl [''lgb'', ''cb_tuned''] 1 None = Inr p"
    using get_gbms_ValueError [of example_automl "[''lgb'', ''cb_tuned'']" 1 None] h2 g2
    by blast
  have "''linear_l2'' \<in> set cost_keys" "\<not> gbm_base ''linear_l2''"
    by (simp_all add: cost_keys_def gbm_base_def split_head_def)
  with r1 r2 show ?thesis by auto
qed

text \<open>
  A fifth key with an unknown base algorithm raises nothing: the builder returns the
  pipeline of the first four keys.
\<close>

theorem get_gbms_ValueError_counterexample:
  "''xgb'' \<in> set [''lgb'', ''lgb_tuned'', ''cb'', ''cb_tuned'', ''xgb'']
   \<and> \<not> gbm_base ''xgb''
   \<and> \<not> isl (get_gbms example_automl [''lgb'', ''lgb_tuned'', ''cb'', ''cb_tuned'', ''xgb''] 1 None)
   \<and> get_gbms example_automl [''lgb'', ''lgb_tuned'', ''cb'', ''cb_tuned'', ''xgb''] 1 None
       \<noteq> Inl ValueError"
proof -
  have g: "\<forall>k\<in>set (take 4 [''lgb'', ''lgb_tuned'', ''cb'', ''cb_tuned'', ''xgb'']).
      k \<in> set cost_keys \<and> gbm_base k"
    by (simp add: cost_keys_def gbm_base_def split_head_def)
  from get_gbms_total [OF g] obtain p where
    "get_gbms example_automl [''lgb'', ''lgb_tuned'', ''cb'', ''cb_tuned'', ''xgb''] 1 None = Inr p"
    by blast
  moreover have "\<not> gbm_base ''xgb''" by (simp add: gbm_base_def split_head_def)
  ultimately show ?thesis by simp
qed

text \<open>
  A key outside the relative cost table stops the builder at the lookup of its time score,
  with \<^verbatim>\<open>KeyError\<close>, before the base algorithm is tested.
\<close>

lemma get_gbms_unknown_key:
  "get_gbms example_automl [''xgb''] 1 None = Inl KeyError
   \<and> get_gbms example_automl [''lgb_fast''] 1 None = Inl KeyError"
  by (simp add: get_gbms_def get_time_score_def time_scores_def)

theorem get_gbms_force_calc_witness:
  "force_calc (projr (get_gbms example_automl [''lgb'', ''lgb_tuned'', ''cb''] 1 None))
     = ForceEach [True, False, False]
   \<and> map unit_timer_key (ml_algos (projr (get_gbms example_automl [''lgb'', ''lgb_tuned'', ''cb''] 1 None)))
     = [''lgb'', ''lgb'', ''cb'']"
proof -
  have g: "\<forall>k\<in>set (take 4 [''lgb'', ''lgb_tuned'', ''cb'']). k \<in> set cost_keys \<and> gbm_base k"
    by (simp add: cost_keys_def gbm_base_def split_head_def)
  from get_gbms_total [OF g] obtain p where
    p: "get_gbms example_automl [''lgb'', ''lgb_tuned'', ''cb''] 1 None = Inr p" by blast
  have ne: "[''lgb'', ''lgb_tuned'', ''cb''] \<noteq> []" by simp
  from get_gbms_force_calc [OF ne p] show ?thesis
    unfolding p by (simp add: split_head_def eval_nat_numeral)
qed

theorem get_gbms_first_four_witness:
  "get_gbms example_automl [''lgb'', ''lgb_tuned'', ''cb'', ''cb_tuned'', ''xgb''] 1 None
     = get_gbms example_automl [''lgb'', ''lgb_tuned'', ''cb'', ''cb_tuned''] 1 None
   \<and> length (ml_algos (projr
        (get_gbms example_automl [''lgb'', ''lgb_tuned'', ''cb'', ''cb_tuned'', ''xgb''] 1 None))) = 4
   \<and> map unit_timer_key (ml_algos (projr
        (get_gbms example_automl [''lgb'', ''lgb_tuned'', ''cb'', ''cb_tuned'', ''xgb''] 1 None)))
       = [''lgb'', ''lgb'', ''cb'', ''cb'']"
proof -
  have g: "\<forall>k\<in>set (take 4 [''lgb'', ''lgb_tuned'', ''cb'', ''cb_tuned'', ''xgb'']).
      k \<in> set cost_keys \<and> gbm_base k"
    by (simp add: cost_keys_def gbm_base_def split_head_def)
  from get_gbms_total [OF g] obtain p where
    p: "get_gbms example_automl [''lgb'', ''lgb_tuned'', ''cb'', ''cb_tuned'', ''xgb''] 1 None = Inr p"
    by blast
  let ?keys = "[''lgb'', ''lgb_tuned'', ''cb'', ''cb_tuned'', ''xgb'']"
  note t = get_gbms_first_four [of example_automl ?keys 1 None]
  from t have a: "get_gbms example_automl ?keys 1 None = get_gbms example_automl (take 4 ?keys) 1 None"
    by (rule conjunct1)
  from t p have b: "length (ml_algos p) = min (length ?keys) 4
      \<and> map unit_timer_key (ml_algos p) = map split_head (take 4 ?keys)" by blast
  have c: "projr (get_gbms example_automl ?keys 1 None) = p" by (simp add: p)
  show ?thesis
    unfolding c using a b by (simp add: split_head_def)
qed

section \<open>Fitting: what reaches the engine\<close>

text \<open>
  Claim C9. With validation data given, \<^verbatim>\<open>fit_predict\<close> hands the engine the
  training data in its read form, the roles merged with those the reader inferred, and the
  validation data as the caller passed it. What the reader makes of the validation data is
  dropped: two readers that agree on the training data give the same call, whatever they
  return for the validation data.
\<close>

theorem fit_predict_forwards:
  "fit_predict read_data super_fit_predict self train_data roles0 train_features cv_iter
       (Some v) valid_features =
     super_fit_predict
       (fst (read_data train_data train_features (cpu_limit self) (get_read_csv_params self)))
       (let r0 = (case roles0 of None \<Rightarrow> [] | Some r \<Rightarrow> r) in
        case snd (read_data train_data train_features (cpu_limit self) (get_read_csv_params self)) of
          None \<Rightarrow> r0
        | Some u \<Rightarrow> if u \<noteq> [] then dict_merge r0 u else r0)
       cv_iter (Some v)
   \<and> (\<forall>read_data'.
         read_data' train_data train_features (cpu_limit self) (get_read_csv_params self)
           = read_data train_data train_features (cpu_limit self) (get_read_csv_params self)
         \<longrightarrow> fit_predict read_data' super_fit_predict self train_data roles0 train_features cv_iter
               (Some v) valid_features
             = fit_predict read_data super_fit_predict self train_data roles0 train_features cv_iter
               (Some v) valid_features)"
  by (simp add: fit_predict_def Let_def split: prod.splits)

theorem fit_predict_forwards_witness:
  "fit_predict read_file record_fit example_automl ''train.csv'' None None None
       (Some ''valid.csv'') None = ([1, 2, 3], [(''y'', ''target'')], Some ''valid.csv'')
   \<and> fit_predict read_file_alt record_fit example_automl ''train.csv'' None None None
       (Some ''valid.csv'') None = ([1, 2, 3], [(''y'', ''target'')], Some ''valid.csv'')
   \<and> fst (read_file ''valid.csv'' None 4 (read_csv_params example_automl)) = [4, 5]
   \<and> fst (read_file_alt ''valid.csv'' None 4 (read_csv_params example_automl)) = [6, 7, 8]"
proof -
  note t = fit_predict_forwards [of read_file record_fit example_automl "''train.csv''" None None
      None "''valid.csv''" None]
  have same: "read_file_alt ''train.csv'' None (cpu_limit example_automl)
        (get_read_csv_params example_automl)
      = read_file ''train.csv'' None (cpu_limit example_automl) (get_read_csv_params example_automl)"
    by (simp add: read_file_alt_def)
  from t have a: "fit_predict read_file record_fit example_automl ''train.csv'' None None None
       (Some ''valid.csv'') None = ([1, 2, 3], [(''y'', ''target'')], Some ''valid.csv'')"
    by (simp add: read_file_def record_fit_def dict_merge_def)
  from t same have b: "fit_predict read_file_alt record_fit example_automl ''train.csv'' None None None
       (Some ''valid.csv'') None = fit_predict read_file record_fit example_automl ''train.csv'' None None None
       (Some ''valid.csv'') None" by blast
  show ?thesis using a b by (simp add: read_file_def read_file_alt_def)
qed

section \<open>Predicting in batches\<close>

lemma rowwise_empty:
  assumes "\<forall>a b. data (super_predict (a @ b) fn) = data (super_predict a fn) @ data (super_predict b fn)"
  shows "data (super_predict [] fn) = []"
proof -
  from assms have "data (super_predict ([] @ []) fn)
      = data (super_predict [] fn) @ data (super_predict [] fn)" by blast
  then show ?thesis by simp
qed

lemma rowwise_concat:
  assumes "\<forall>a b. data (super_predict (a @ b) fn) = data (super_predict a fn) @ data (super_predict b fn)"
  shows "data (super_predict (concat xss) fn) = concat (map (\<lambda>xs. data (super_predict xs fn)) xss)"
proof (induction xss)
  case Nil
  show ?case using rowwise_empty [of super_predict fn, OF assms] by simp
next
  case (Cons xs xss)
  then show ?case using assms by simp
qed

text \<open>
  Claim C8, as the code has it. Let the engine predict every row on its own (the
  predictions of two datasets put together are the predictions of each, put together), and
  let the batches be a non-empty sequence whose rows, in order, are the rows of the
  dataset. Then \<^verbatim>\<open>predict\<close> with a batch size and \<^verbatim>\<open>n_jobs=1\<close> returns, and
  its prediction array is the concatenation of the per-batch predictions in batch order,
  row for row the array of the call without a batch size.
\<close>

theorem predict_batched_eq_whole:
  assumes rowwise: "\<forall>a b. data (super_predict (a @ b) fn)
        = data (super_predict a fn) @ data (super_predict b fn)"
    and part: "concat (map (\<lambda>df. fst (read_data df fn (cpu_limit self) (get_read_csv_params self)))
          (read_batch src fn 1 (Some bs) (get_read_csv_params self)))
        = fst (read_data src fn (cpu_limit self) (get_read_csv_params self))"
    and nonempty: "read_batch src fn 1 (Some bs) (get_read_csv_params self) \<noteq> []"
  shows "\<exists>r w. predict read_data read_batch super_predict self src fn (Some bs) 1 = Inr r
     \<and> predict read_data read_batch super_predict self src fn None 1 = Inr w
     \<and> data r = data w
     \<and> data r = concat (map (\<lambda>df. data (predict_whole read_data super_predict self df fn))
                  (read_batch src fn 1 (Some bs) (get_read_csv_params self)))"
proof -
  let ?csv = "get_read_csv_params self"
  let ?bs = "read_batch src fn 1 (Some bs) ?csv"
  let ?rd = "\<lambda>df. fst (read_data df fn (cpu_limit self) ?csv)"
  have pw: "predict_whole read_data super_predict self df fn = super_predict (?rd df) fn" for df
    by (simp add: predict_whole_def Let_def split: prod.splits)
  from nonempty obtain b0 rest where bs: "?bs = b0 # rest" by (cases ?bs) auto
  define r where "r = \<lparr>data = concat (map data (map (\<lambda>df. predict_whole read_data super_predict self df fn) ?bs)),
      features = features (predict_whole read_data super_predict self b0 fn),
      roles = roles (predict_whole read_data super_predict self b0 fn)\<rparr>"
  have 1: "predict read_data read_batch super_predict self src fn (Some bs) 1 = Inr r"
    by (simp add: predict_def Let_def bs r_def)
  have 2: "predict read_data read_batch super_predict self src fn None 1 =
      Inr (predict_whole read_data super_predict self src fn)"
    by (simp add: predict_def Let_def)
  have "data r = concat (map (\<lambda>df. data (super_predict (?rd df) fn)) ?bs)"
    by (simp add: r_def pw comp_def)
  also have "\<dots> = concat (map (\<lambda>xs. data (super_predict xs fn)) (map ?rd ?bs))"
    by (simp add: comp_def)
  also have "\<dots> = data (super_predict (concat (map ?rd ?bs)) fn)"
    by (rule rowwise_concat [of super_predict fn, OF rowwise, symmetric])
  also have "\<dots> = data (predict_whole read_data super_predict self src fn)"
    by (simp only: part pw)
  finally have 3: "data r = data (predict_whole read_data super_predict self src fn)" .
  have 4: "data r = concat (map (\<lambda>df. data (predict_whole read_data super_predict self df fn)) ?bs)"
    by (simp add: r_def comp_def)
  from 1 2 3 4 show ?thesis by blast
qed

lemma chunks_example: "chunks 2 [1, 2, 3 :: int] = [[1, 2], [3]]"
  by (simp add: eval_nat_numeral)

lemma chunks_empty: "chunks n ([] :: int list) = []"
  by simp

theorem predict_batched_eq_whole_witness:
  "predict read_rows read_chunks double_predict example_automl [1, 2, 3] None (Some 2) 1
     = Inr \<lparr>data = [2, 4, 6], features = [''pred''], roles = []\<rparr>
   \<and> predict read_rows read_chunks double_predict example_automl [1, 2, 3] None None 1
     = Inr \<lparr>data = [2, 4, 6], features = [''pred''], roles = []\<rparr>
   \<and> read_chunks [1, 2, 3] None 1 (Some 2) (get_read_csv_params example_automl) = [[1, 2], [3]]"
proof -
  have c: "read_chunks [1, 2, 3] None 1 (Some 2) (get_read_csv_params example_automl) = [[1, 2], [3]]"
    using chunks_example by (simp add: read_chunks_def)
  have rowwise: "\<forall>a b. data (double_predict (a @ b) None)
        = data (double_predict a None) @ data (double_predict b None)"
    by (simp add: double_predict_def)
  have part: "concat (map (\<lambda>df. fst (read_rows df None (cpu_limit example_automl)
            (get_read_csv_params example_automl)))
          (read_chunks [1, 2, 3] None 1 (Some 2) (get_read_csv_params example_automl)))
        = fst (read_rows [1, 2, 3] None (cpu_limit example_automl) (get_read_csv_params example_automl))"
    unfolding c by (simp add: read_rows_def)
  have nonempty: "read_chunks [1, 2, 3] None 1 (Some 2) (get_read_csv_params example_automl) \<noteq> []"
    unfolding c by simp
  from predict_batched_eq_whole [of double_predict None read_rows example_automl read_chunks
      "[1, 2, 3]" 2, OF rowwise part nonempty]
  obtain r w where
    r: "predict read_rows read_chunks double_predict example_automl [1, 2, 3] None (Some 2) 1 = Inr r"
    and w: "predict read_rows read_chunks double_predict example_automl [1, 2, 3] None None 1 = Inr w"
    and "data r = data w" by blast
  have w': "w = \<lparr>data = [2, 4, 6], features = [''pred''], roles = []\<rparr>"
    using w by (simp add: predict_def predict_whole_def read_rows_def double_predict_def Let_def)
  have r': "r = \<lparr>data = [2, 4, 6], features = [''pred''], roles = []\<rparr>"
    using r unfolding predict_def Let_def c
    by (simp add: predict_whole_def read_rows_def double_predict_def Let_def)
  show ?thesis using r w r' w' c by simp
qed

text \<open>
  The dataset without rows has no batch: the batched call raises where
  \<^verbatim>\<open>np.concatenate\<close> gets an empty list, while the call without a batch size returns
  the empty prediction array.
\<close>

theorem predict_batched_counterexample:
  "read_chunks [] None 1 (Some 100) (get_read_csv_params example_automl) = []
   \<and> predict read_rows read_chunks double_predict example_automl [] None (Some 100) 1
       = Inl ValueError
   \<and> predict read_rows read_chunks double_predict example_automl [] None None 1
       = Inr \<lparr>data = [], features = [''pred''], roles = []\<rparr>"
  by (simp add: predict_def predict_whole_def read_rows_def read_chunks_def double_predict_def
      Let_def)

section \<open>Constructing the multi-configuration runner\<close>

text \<open>
  Claim C1, on a caller-supplied list. The claim asks for a runner initialised over exactly
  the list given, with a mean blender inside and a weighted blender outside. The
  constructor reaches the base initialiser on the default list only: on a list of two
  configuration files it returns with nothing initialised.
\<close>

theorem utilized_init_supplied_configs:
  "TabularUtilizedAutoML_init ''/pkg/presets'' ''binary'' 3600 16 4 None 2 None
     (Some [''my_conf_0.yml'', ''my_conf_1.yml'']) True 5 42 [] = None"
  by (simp add: TabularUtilizedAutoML_init_def)

lemma utilized_init_supplied_any:
  "TabularUtilizedAutoML_init base_dir task t m c g v tp (Some cs) dl mr rs kw = None"
  by (simp add: TabularUtilizedAutoML_init_def)

text \<open>
  Without a list, the runner is initialised over the seven default configuration files,
  with the mean blender inside and the weighted blender outside.
\<close>

lemma utilized_init_default:
  "\<exists>r. TabularUtilizedAutoML_init base_dir task t m c g v tp None dl mr rs kw = Some r
     \<and> configs_list r = map (\<lambda>x. path_join (path_join base_dir ''tabular_configs'') x) default_configs
     \<and> inner_blend r = MeanBlender \<and> outer_blend r = WeightedBlender
     \<and> length (configs_list r) = 7"
  by (simp add: TabularUtilizedAutoML_init_def Let_def default_configs_def)

end
